theory Spec2Isabelle
  imports Main
begin

section \<open>The import command of the transfer CLI\<close>

text \<open>
  A shallow embedding of \<^verbatim>\<open>packages/core/strapi/lib/commands/transfer/import.js\<close>.
  Values that the command imports from other modules (the default strategies and the
  list of ignored content types) are parameters of the model; calls into other modules
  (provider and engine construction, the engine's transfer, the table renderer) are
  parameters that either return a value or throw.
\<close>

subsection \<open>Data\<close>

type_synonym error = string

text \<open>The named constants the command imports.\<close>

record constants =
  DEFAULT_VERSION_STRATEGY :: string
  DEFAULT_SCHEMA_STRATEGY :: string
  DEFAULT_CONFLICT_STRATEGY :: string
  DEFAULT_IGNORED_CONTENT_TYPES :: "string list"

text \<open>The options object handed over by the argument parser; absent properties are \<open>None\<close>.\<close>

record cli_opts =
  file_name :: string
  key :: "string option"
  conflictStrategy :: "string option"
  versionStrategy :: "string option"
  schemaStrategy :: "string option"
  exclude :: "string list option"

text \<open>Entities and links, with the fields the filters read.\<close>

record entity =
  type :: string

record link =
  left :: entity
  right :: entity

subsection \<open>JavaScript operators used by the command\<close>

text \<open>\<^verbatim>\<open>Array.prototype.includes\<close> on an array of strings.\<close>

fun array_includes :: "'a list \<Rightarrow> 'a \<Rightarrow> bool" where
  "array_includes [] x = False"
| "array_includes (y # ys) x = (y = x \<or> array_includes ys x)"

text \<open>
  \<^verbatim>\<open>a || b\<close> where \<open>a\<close> is a string or undefined: the falsy values of that type are
  undefined and the empty string.
\<close>

definition js_or :: "string option \<Rightarrow> string \<Rightarrow> string" where
  "js_or a b = (case a of None \<Rightarrow> b | Some s \<Rightarrow> if s = [] then b else s)"

subsection \<open>Destination and engine options\<close>

record 's destination_options =
  getStrapi :: 's
  strategy :: string
  restore_entities_exclude :: "string list"

record ('l, 'e) rules =
  links :: "('l \<Rightarrow> bool) list"
  entities :: "('e \<Rightarrow> bool) list"

record ('l, 'e) engine_options =
  eo_versionStrategy :: string
  eo_schemaStrategy :: string
  eo_exclude :: "string list option"
  rules :: "('l, 'e) rules"

definition destinationOptions :: "constants \<Rightarrow> 's \<Rightarrow> cli_opts \<Rightarrow> 's destination_options" where
  "destinationOptions K strapiInstance opts =
     \<lparr> getStrapi = strapiInstance,
       strategy = js_or (conflictStrategy opts) (DEFAULT_CONFLICT_STRATEGY K),
       restore_entities_exclude = DEFAULT_IGNORED_CONTENT_TYPES K \<rparr>"

definition link_filter :: "constants \<Rightarrow> 'a link_scheme \<Rightarrow> bool" where
  "link_filter K l =
     (\<not> array_includes (DEFAULT_IGNORED_CONTENT_TYPES K) (type (left l)) \<and>
      \<not> array_includes (DEFAULT_IGNORED_CONTENT_TYPES K) (type (right l)))"

definition entity_filter :: "constants \<Rightarrow> 'a entity_scheme \<Rightarrow> bool" where
  "entity_filter K e = (\<not> array_includes (DEFAULT_IGNORED_CONTENT_TYPES K) (type e))"

definition engineOptions ::
  "constants \<Rightarrow> cli_opts \<Rightarrow> ('a link_scheme, 'b entity_scheme) engine_options" where
  "engineOptions K opts =
     \<lparr> eo_versionStrategy = js_or (versionStrategy opts) (DEFAULT_VERSION_STRATEGY K),
       eo_schemaStrategy = js_or (schemaStrategy opts) (DEFAULT_SCHEMA_STRATEGY K),
       eo_exclude = exclude opts,
       rules = \<lparr> links = [link_filter K], entities = [entity_filter K] \<rparr> \<rparr>"

subsection \<open>Telemetry payload\<close>

record provider =
  name :: string

record engine =
  sourceProvider :: provider
  destinationProvider :: provider

record event_properties =
  source :: string
  destination :: string

record telemetry_payload =
  eventProperties :: event_properties

definition telemetryPayload :: "engine \<Rightarrow> 'p \<Rightarrow> telemetry_payload" where
  "telemetryPayload eng payload =
     \<lparr> eventProperties =
         \<lparr> source = name (sourceProvider eng),
           destination = name (destinationProvider eng) \<rparr> \<rparr>"

subsection \<open>File names\<close>

text \<open>
  \<^verbatim>\<open>path.extname\<close> and \<^verbatim>\<open>path.parse(p).name\<close> of the platform library, in its POSIX
  flavour. Trailing separators are ignored and only the last component of the path is
  looked at. The extension runs from the last dot of that component to its end; it is
  empty when the component has no dot, when its only dot is its first character, and
  when the component is \<^verbatim>\<open>..\<close>. The name is the component without the extension; the
  command asks for it only after it has found the extension to be \<^verbatim>\<open>.enc\<close> or \<^verbatim>\<open>.gz\<close>.
\<close>

definition basename :: "string \<Rightarrow> string" where
  "basename p =
     rev (takeWhile (\<lambda>c. c \<noteq> CHR ''/'') (dropWhile (\<lambda>c. c = CHR ''/'') (rev p)))"

definition extname :: "string \<Rightarrow> string" where
  "extname p =
     (let b = basename p;
          e = rev (takeWhile (\<lambda>c. c \<noteq> CHR ''.'') (rev b))
      in if \<not> array_includes b (CHR ''.'') then []
         else if Suc (length e) = length b then []
         else if b = ''..'' then []
         else CHR ''.'' # e)"

definition parse_name :: "string \<Rightarrow> string" where
  "parse_name p = (let b = basename p in take (length b - length (extname p)) b)"

subsection \<open>Source options inferred from the file name\<close>

record file_options =
  path :: string

record compression_options =
  compression_enabled :: bool

record encryption_options =
  encryption_enabled :: bool
  encryption_key :: "string option"

record source_options =
  file_options :: file_options
  compression :: compression_options
  encryption :: encryption_options

text \<open>
  The function assigns to the local \<^verbatim>\<open>file\<close> and to two properties of \<^verbatim>\<open>options\<close>;
  the model threads the pair of both through the two conditionals.
\<close>

definition getLocalFileSourceOptions :: "'a cli_opts_scheme \<Rightarrow> source_options" where
  "getLocalFileSourceOptions opts =
     (let options = \<lparr> file_options = \<lparr> path = file_name opts \<rparr>,
                      compression = \<lparr> compression_enabled = False \<rparr>,
                      encryption = \<lparr> encryption_enabled = False, encryption_key = None \<rparr> \<rparr>;
          file0 = path (file_options options);
          (file1, options1) =
            (if extname file0 = ''.enc''
             then (parse_name file0,
                   options\<lparr> encryption :=
                     \<lparr> encryption_enabled = True, encryption_key = key opts \<rparr> \<rparr>)
             else (file0, options));
          (file2, options2) =
            (if extname file1 = ''.gz''
             then (parse_name file1,
                   options1\<lparr> compression := \<lparr> compression_enabled = True \<rparr> \<rparr>)
             else (file1, options1))
      in options2)"

subsection \<open>Progress handlers\<close>

text \<open>
  The variables the three handlers share. \<open>sent\<close> is the list of telemetry messages
  handed to \<^verbatim>\<open>strapiInstance.telemetry.send\<close>; \<open>assigned\<close> is the history of the values
  assigned to \<^verbatim>\<open>transferExitCode\<close>, oldest first; it is not a variable of the program.
\<close>

record closure =
  transferExitCode :: "nat option"
  sent :: "(string \<times> telemetry_payload) list"
  assigned :: "nat list"

definition initial :: closure where
  "initial = \<lparr> transferExitCode = None, sent = [], assigned = [] \<rparr>"

text \<open>
  Each handler is an asynchronous function with one \<^verbatim>\<open>await\<close>. When the listener is
  invoked it runs up to the \<^verbatim>\<open>await\<close>: it builds the payload and calls the send. When
  the awaited send has resolved it is resumed and runs its rest: the assignment, where
  there is one.
\<close>

definition on_start_invoked :: "engine \<Rightarrow> 'p \<Rightarrow> closure \<Rightarrow> closure" where
  "on_start_invoked eng payload st =
     st\<lparr> sent := sent st @ [(''didDEITSProcessStart'', telemetryPayload eng payload)] \<rparr>"

definition on_start_resumed :: "closure \<Rightarrow> closure" where
  "on_start_resumed st = st"

definition on_finish_invoked :: "engine \<Rightarrow> 'p \<Rightarrow> closure \<Rightarrow> closure" where
  "on_finish_invoked eng payload st =
     st\<lparr> sent := sent st @ [(''didDEITSProcessFinish'', telemetryPayload eng payload)] \<rparr>"

definition on_finish_resumed :: "closure \<Rightarrow> closure" where
  "on_finish_resumed st = st\<lparr> transferExitCode := Some 0, assigned := assigned st @ [0] \<rparr>"

definition on_error_invoked :: "engine \<Rightarrow> 'p \<Rightarrow> closure \<Rightarrow> closure" where
  "on_error_invoked eng payload st =
     st\<lparr> sent := sent st @ [(''didDEITSProcessFail'', telemetryPayload eng payload)] \<rparr>"

definition on_error_resumed :: "closure \<Rightarrow> closure" where
  "on_error_resumed st = st\<lparr> transferExitCode := Some 1, assigned := assigned st @ [1] \<rparr>"

text \<open>A whole handler: invoked, and resumed with nothing in between.\<close>

definition on_start :: "engine \<Rightarrow> 'p \<Rightarrow> closure \<Rightarrow> closure" where
  "on_start eng payload st = on_start_resumed (on_start_invoked eng payload st)"

definition on_finish :: "engine \<Rightarrow> 'p \<Rightarrow> closure \<Rightarrow> closure" where
  "on_finish eng payload st = on_finish_resumed (on_finish_invoked eng payload st)"

definition on_error :: "engine \<Rightarrow> 'p \<Rightarrow> closure \<Rightarrow> closure" where
  "on_error eng payload st = on_error_resumed (on_error_invoked eng payload st)"

text \<open>The subscriptions made with \<^verbatim>\<open>progress.on\<close>: an event of another name has no handler.\<close>

definition invoke :: "engine \<Rightarrow> string \<times> 'p \<Rightarrow> closure \<Rightarrow> closure" where
  "invoke eng ev st =
     (if fst ev = ''transfer::start'' then on_start_invoked eng (snd ev) st
      else if fst ev = ''transfer::finish'' then on_finish_invoked eng (snd ev) st
      else if fst ev = ''transfer::error'' then on_error_invoked eng (snd ev) st
      else st)"

definition resume :: "string \<times> 'p \<Rightarrow> closure \<Rightarrow> closure" where
  "resume ev st =
     (if fst ev = ''transfer::start'' then on_start_resumed st
      else if fst ev = ''transfer::finish'' then on_finish_resumed st
      else if fst ev = ''transfer::error'' then on_error_resumed st
      else st)"

definition handle :: "engine \<Rightarrow> string \<times> 'p \<Rightarrow> closure \<Rightarrow> closure" where
  "handle eng ev st =
     (if fst ev = ''transfer::start'' then on_start eng (snd ev) st
      else if fst ev = ''transfer::finish'' then on_finish eng (snd ev) st
      else if fst ev = ''transfer::error'' then on_error eng (snd ev) st
      else st)"

fun run_handlers :: "engine \<Rightarrow> (string \<times> 'p) list \<Rightarrow> closure \<Rightarrow> closure" where
  "run_handlers eng [] st = st"
| "run_handlers eng (ev # evs) st = run_handlers eng evs (handle eng ev st)"

text \<open>
  A timeline lists the steps of the handlers in one execution in the order in which they
  happen, each with the clock reading at which it happens. A step is the invocation of
  the listener of an event, or the resumption of a listener whose awaited send has
  resolved. A listener whose send never resolves, or rejects, is never resumed. The
  variables at clock reading \<open>t\<close> are the result of the steps that happened by then; a step
  stamped \<open>t\<close> precedes a read of the clock that returns \<open>t\<close>.
\<close>

datatype 'p handler_step = Invoked "string \<times> 'p" | Resumed "string \<times> 'p"

fun do_step :: "engine \<Rightarrow> 'p handler_step \<Rightarrow> closure \<Rightarrow> closure" where
  "do_step eng (Invoked ev) st = invoke eng ev st"
| "do_step eng (Resumed ev) st = resume ev st"

fun run_steps :: "engine \<Rightarrow> 'p handler_step list \<Rightarrow> closure \<Rightarrow> closure" where
  "run_steps eng [] st = st"
| "run_steps eng (x # xs) st = run_steps eng xs (do_step eng x st)"

type_synonym 'p timeline = "(int \<times> 'p handler_step) list"

definition closure_at :: "engine \<Rightarrow> 'p timeline \<Rightarrow> int \<Rightarrow> closure" where
  "closure_at eng runs t =
     run_steps eng (map snd (filter (\<lambda>r. fst r \<le> t) runs)) initial"

definition slot_of :: "engine \<Rightarrow> 'p timeline \<Rightarrow> int \<Rightarrow> nat option" where
  "slot_of eng runs t = transferExitCode (closure_at eng runs t)"

subsection \<open>Waiting for the exit code\<close>

text \<open>
  \<open>slot t\<close> is the value of \<^verbatim>\<open>transferExitCode\<close> read at clock reading \<open>t\<close>, and \<open>lag t\<close>
  is the lateness, in milliseconds, of the 50 ms timer armed at \<open>t\<close>, which fires at
  \<open>t + 50 + lag t\<close>. The clock is read once at each loop head; the code between two
  reads takes no time. The loop returns the code passed to \<^verbatim>\<open>process.exit\<close> and the clock
  reading at that call. Each sleep lasts at least 50 ms, so the loop ends.
\<close>

function waitLoop ::
  "(int \<Rightarrow> nat option) \<Rightarrow> (int \<Rightarrow> nat) \<Rightarrow> int \<Rightarrow> int \<Rightarrow> int \<Rightarrow> nat \<times> int" where
  "waitLoop slot lag startTime maxWait now =
     (if now - startTime < maxWait then
        (case slot now of
           Some code \<Rightarrow> (code, now)
         | None \<Rightarrow> waitLoop slot lag startTime maxWait (now + 50 + int (lag now)))
      else (0, now))"
  by pat_completeness auto
termination
  by (relation "measure (\<lambda>(slot, lag, startTime, maxWait, now). nat (maxWait - (now - startTime)))")
    auto

declare waitLoop.simps [simp del]

definition waitForExitCode ::
  "(int \<Rightarrow> nat option) \<Rightarrow> (int \<Rightarrow> nat) \<Rightarrow> int \<Rightarrow> int \<Rightarrow> nat \<times> int" where
  "waitForExitCode slot lag startTime maxWait = waitLoop slot lag startTime maxWait startTime"

text \<open>
  The clock readings at which the loop head is reached while less than \<open>maxWait\<close> has
  elapsed, were the loop never left early: the instants at which the slot can be polled.
\<close>

function poll_instants :: "(int \<Rightarrow> nat) \<Rightarrow> int \<Rightarrow> int \<Rightarrow> int \<Rightarrow> int list" where
  "poll_instants lag startTime maxWait now =
     (if now - startTime < maxWait
      then now # poll_instants lag startTime maxWait (now + 50 + int (lag now))
      else [])"
  by pat_completeness auto
termination
  by (relation "measure (\<lambda>(lag, startTime, maxWait, now). nat (maxWait - (now - startTime)))")
    auto

declare poll_instants.simps [simp del]

definition exact_timers :: "int \<Rightarrow> nat" where
  "exact_timers t = 0"

subsection \<open>The command\<close>

text \<open>
  The command's argument is an object or not (\<^verbatim>\<open>isObject\<close>). The command ends with a call
  of \<^verbatim>\<open>process.exit\<close>, or its promise rejects with a fault thrown before the \<^verbatim>\<open>try\<close>
  block, in which case the command itself chooses no exit code.
\<close>

datatype js_arg = NotAnObject | Opts cli_opts

datatype outcome = Exit nat | Unhandled error

datatype log_line = Info string | Err string

record report =
  outcome :: outcome
  logs :: "log_line list"
  ended_at :: int

text \<open>
  The functions of other modules that the command calls; each returns or throws.
  \<open>buildTransferTable\<close> stands for building the table and rendering it to text.
\<close>

record ('s, 'r) modules =
  createLocalFileSourceProvider :: "source_options \<Rightarrow> error + provider"
  loadStrapi :: "error + 's"
  createLocalStrapiDestinationProvider :: "'s destination_options \<Rightarrow> error + provider"
  createTransferEngine ::
    "provider \<Rightarrow> provider \<Rightarrow> (link, entity) engine_options \<Rightarrow> error + engine"
  buildTransferTable :: "'r \<Rightarrow> error + string"

text \<open>
  What happens in one execution: the clock reading at the start, how the awaited
  transfer settles and when, the steps of the handlers, and the lateness of the timers.
\<close>

record ('r, 'p) run =
  started_at :: int
  transfer :: "error + 'r"
  settled_at :: int
  timeline :: "'p timeline"
  timer_lag :: "int \<Rightarrow> nat"

text \<open>Providers, instance and engine, built in the order of the source.\<close>

definition build_engine :: "constants \<Rightarrow> ('s, 'r) modules \<Rightarrow> cli_opts \<Rightarrow> error + engine" where
  "build_engine K X opts =
     (case createLocalFileSourceProvider X (getLocalFileSourceOptions opts) of
        Inl e \<Rightarrow> Inl e
      | Inr src \<Rightarrow>
     (case loadStrapi X of
        Inl e \<Rightarrow> Inl e
      | Inr strapiInstance \<Rightarrow>
     (case createLocalStrapiDestinationProvider X (destinationOptions K strapiInstance opts) of
        Inl e \<Rightarrow> Inl e
      | Inr dst \<Rightarrow> createTransferEngine X src dst (engineOptions K opts))))"

definition caught :: "('r, 'p) run \<Rightarrow> error \<Rightarrow> report" where
  "caught R e =
     \<lparr> outcome = Exit 1,
       logs = [Info ''Starting import...'',
               Err ''Import process failed unexpectedly:'',
               Err e],
       ended_at = settled_at R \<rparr>"

definition run_engine :: "('s, 'r) modules \<Rightarrow> ('r, 'p) run \<Rightarrow> engine \<Rightarrow> report" where
  "run_engine X R eng =
     (case transfer R of
        Inl e \<Rightarrow> caught R e
      | Inr results \<Rightarrow>
          (case buildTransferTable X results of
             Inl e \<Rightarrow> caught R e
           | Inr table \<Rightarrow>
               (let (code, t) =
                      waitForExitCode (slot_of eng (timeline R)) (timer_lag R) (settled_at R) 5000
                in \<lparr> outcome = Exit code,
                     logs = [Info ''Starting import...'',
                             Info table,
                             Info ''Import process has been completed successfully!''],
                     ended_at = t \<rparr>)))"

definition import_cmd ::
  "constants \<Rightarrow> ('s, 'r) modules \<Rightarrow> ('r, 'p) run \<Rightarrow> js_arg \<Rightarrow> report" where
  "import_cmd K X R arg =
     (case arg of
        NotAnObject \<Rightarrow>
          \<lparr> outcome = Exit 1, logs = [Err ''Could not parse arguments''],
            ended_at = started_at R \<rparr>
      | Opts opts \<Rightarrow>
          (case build_engine K X opts of
             Inl e \<Rightarrow> \<lparr> outcome = Unhandled e, logs = [], ended_at = started_at R \<rparr>
           | Inr eng \<Rightarrow> run_engine X R eng))"

subsection \<open>Notions used to state the properties\<close>

text \<open>The part of a string after its last separator, and a shorthand for an options value.\<close>

definition last_component :: "string \<Rightarrow> string" where
  "last_component d = rev (takeWhile (\<lambda>c. c \<noteq> CHR ''/'') (rev d))"

abbreviation options_with :: "string \<Rightarrow> bool \<Rightarrow> bool \<Rightarrow> string option \<Rightarrow> source_options" where
  "options_with p gz enc k \<equiv>
     \<lparr> file_options = \<lparr> path = p \<rparr>,
       compression = \<lparr> compression_enabled = gz \<rparr>,
       encryption = \<lparr> encryption_enabled = enc, encryption_key = k \<rparr> \<rparr>"

definition opts_for :: "string \<Rightarrow> string option \<Rightarrow> cli_opts" where
  "opts_for f k =
     \<lparr> file_name = f, key = k, conflictStrategy = None, versionStrategy = None,
       schemaStrategy = None, exclude = None \<rparr>"

text \<open>The exit code that the handler subscribed to an event assigns, if it assigns one.\<close>

definition terminal_code :: "string \<Rightarrow> nat option" where
  "terminal_code ev =
     (if ev = ''transfer::finish'' then Some 0
      else if ev = ''transfer::error'' then Some 1
      else None)"

text \<open>The events whose listeners are resumed among the steps, in the order of resumption.\<close>

fun resumed :: "'p handler_step list \<Rightarrow> (string \<times> 'p) list" where
  "resumed [] = []"
| "resumed (Invoked ev # xs) = resumed xs"
| "resumed (Resumed ev # xs) = ev # resumed xs"

text \<open>
  The status seen by the first poll that finds the slot set, if a poll made while less
  than 5000 ms have elapsed finds it set.
\<close>

definition observed_status :: "engine \<Rightarrow> ('r, 'p) run \<Rightarrow> nat option" where
  "observed_status eng R =
     (case find (\<lambda>t. slot_of eng (timeline R) t \<noteq> None)
             (poll_instants (timer_lag R) (settled_at R) 5000 (settled_at R)) of
        None \<Rightarrow> None
      | Some t \<Rightarrow> slot_of eng (timeline R) t)"

subsection \<open>Sample values\<close>

definition sample_constants :: constants where
  "sample_constants =
     \<lparr> DEFAULT_VERSION_STRATEGY = ''ignore'',
       DEFAULT_SCHEMA_STRATEGY = ''strict'',
       DEFAULT_CONFLICT_STRATEGY = ''restore'',
       DEFAULT_IGNORED_CONTENT_TYPES = [''admin::user'', ''admin::role''] \<rparr>"

definition sample_engine :: engine where
  "sample_engine =
     \<lparr> sourceProvider = \<lparr> name = ''source::local-file'' \<rparr>,
       destinationProvider = \<lparr> name = ''destination::local-strapi'' \<rparr> \<rparr>"

definition sample_modules :: "(unit, string) modules" where
  "sample_modules =
     \<lparr> createLocalFileSourceProvider = (\<lambda>options. Inr \<lparr> name = ''source::local-file'' \<rparr>),
       loadStrapi = Inr (),
       createLocalStrapiDestinationProvider =
         (\<lambda>options. Inr \<lparr> name = ''destination::local-strapi'' \<rparr>),
       createTransferEngine =
         (\<lambda>src dst options. Inr \<lparr> sourceProvider = src, destinationProvider = dst \<rparr>),
       buildTransferTable = (\<lambda>results. Inr results) \<rparr>"

definition failing_modules :: "(unit, string) modules" where
  "failing_modules = sample_modules\<lparr> loadStrapi := Inl ''database unreachable'' \<rparr>"

definition unrenderable_modules :: "(unit, string) modules" where
  "unrenderable_modules =
     sample_modules\<lparr> buildTransferTable := (\<lambda>results. Inl ''cannot render'') \<rparr>"

definition sample_run :: "error + string \<Rightarrow> unit timeline \<Rightarrow> (string, unit) run" where
  "sample_run outcome_of_transfer runs =
     \<lparr> started_at = 0, transfer = outcome_of_transfer, settled_at = 0,
       timeline = runs, timer_lag = exact_timers \<rparr>"

text \<open>
  Timelines of executions whose transfer settles at clock reading 0: the listeners are
  invoked by then and resumed later.
\<close>

definition early_error :: "unit timeline" where
  "early_error =
     [(0, Invoked (''transfer::error'', ())), (120, Resumed (''transfer::error'', ()))]"

definition early_finish :: "unit timeline" where
  "early_finish =
     [(0, Invoked (''transfer::start'', ())), (0, Invoked (''transfer::finish'', ())),
      (20, Resumed (''transfer::start'', ())), (130, Resumed (''transfer::finish'', ()))]"

definition late_error :: "unit timeline" where
  "late_error =
     [(0, Invoked (''transfer::error'', ())), (4960, Resumed (''transfer::error'', ()))]"

definition finish_then_error :: "(string \<times> unit) list" where
  "finish_then_error = [(''transfer::finish'', ()), (''transfer::error'', ())]"

section \<open>Properties\<close>

lemma array_includes_set: "array_includes xs x = (x \<in> set xs)"
  by (induction xs) auto

subsection \<open>The platform's file-name functions on the documented examples\<close>

lemma extname_examples:
  "extname ''index.html'' = ''.html''"
  "extname ''index.coffee.md'' = ''.md''"
  "extname ''index.'' = ''.''"
  "extname ''index'' = []"
  "extname ''.index'' = []"
  "extname ''.index.md'' = ''.md''"
  "extname ''..'' = []"
  "extname ''backups/report.enc/'' = ''.enc''"
  by (simp_all add: extname_def basename_def)

lemma parse_name_examples:
  "parse_name ''/home/user/dir/file.txt'' = ''file''"
  "parse_name ''report.gz.enc'' = ''report.gz''"
  by (simp_all add: parse_name_def extname_def basename_def)

subsection \<open>Extensions of names built by appending suffixes\<close>

lemma basename_append:
  assumes "s \<noteq> []" and "CHR ''/'' \<notin> set s"
  shows "basename (d @ s) = last_component d @ s"
proof -
  from assms have "hd (rev s) \<noteq> CHR ''/''"
    by (metis hd_rev last_in_set)
  with assms(1) have "dropWhile (\<lambda>c. c = CHR ''/'') (rev s @ rev d) = rev s @ rev d"
    by (cases "rev s") auto
  moreover from assms(2) have
    "takeWhile (\<lambda>c. c \<noteq> CHR ''/'') (rev s @ rev d) = rev s @ takeWhile (\<lambda>c. c \<noteq> CHR ''/'') (rev d)"
    by (intro takeWhile_append2) auto
  ultimately show ?thesis
    by (simp add: basename_def last_component_def)
qed

lemma extname_suffix:
  assumes "s \<noteq> []" and "CHR ''/'' \<notin> set s"
    and "e \<noteq> []" and "CHR ''.'' \<notin> set e" and "CHR ''/'' \<notin> set e"
  shows "extname (d @ s @ CHR ''.'' # e) = CHR ''.'' # e"
proof -
  let ?b = "last_component d @ s @ CHR ''.'' # e"
  from assms have b: "basename (d @ s @ CHR ''.'' # e) = ?b"
    using basename_append [of "s @ CHR ''.'' # e" d] by simp
  from assms(4) have
    "takeWhile (\<lambda>c. c \<noteq> CHR ''.'') (rev e @ CHR ''.'' # rev s @ rev (last_component d)) =
     rev e @ takeWhile (\<lambda>c. c \<noteq> CHR ''.'') (CHR ''.'' # rev s @ rev (last_component d))"
    by (intro takeWhile_append2) auto
  then have e: "rev (takeWhile (\<lambda>c. c \<noteq> CHR ''.'') (rev ?b)) = e"
    by simp
  from assms(1) have len: "Suc (length e) \<noteq> length ?b"
    by (cases s) auto
  from assms(1,3) have "2 < length ?b"
    by (cases s; cases e) auto
  then have "?b \<noteq> ''..''"
    by (metis length_Cons list.size(3) less_irrefl numeral_2_eq_2)
  with b e len show ?thesis
    by (simp add: extname_def Let_def array_includes_set)
qed

lemma parse_name_suffix:
  assumes "s \<noteq> []" and "CHR ''/'' \<notin> set s"
    and "e \<noteq> []" and "CHR ''.'' \<notin> set e" and "CHR ''/'' \<notin> set e"
  shows "parse_name (d @ s @ CHR ''.'' # e) = last_component d @ s"
proof -
  from assms have "basename (d @ s @ CHR ''.'' # e) = last_component d @ s @ CHR ''.'' # e"
    using basename_append [of "s @ CHR ''.'' # e" d] by simp
  with extname_suffix [OF assms, of d] show ?thesis
    by (simp add: parse_name_def Let_def)
qed


lemma last_component_idem: "last_component (last_component d) = last_component d"
  by (simp add: last_component_def)

lemma extname_last_component:
  assumes "s \<noteq> []" and "CHR ''/'' \<notin> set s"
  shows "extname (last_component d @ s) = extname (d @ s)"
  using basename_append [OF assms, of d] basename_append [OF assms, of "last_component d"]
  by (simp add: extname_def last_component_idem)

lemma getLocalFileSourceOptions_eq:
  "getLocalFileSourceOptions opts =
     options_with (file_name opts)
       (extname (if extname (file_name opts) = ''.enc''
                 then parse_name (file_name opts) else file_name opts) = ''.gz'')
       (extname (file_name opts) = ''.enc'')
       (if extname (file_name opts) = ''.enc'' then key opts else None)"
  by (simp add: getLocalFileSourceOptions_def Let_def)

lemma gz_enc_both:
  assumes "s \<noteq> []" and "CHR ''/'' \<notin> set s"
  shows "extname (d @ s @ ''.gz.enc'') = ''.enc''"
    and "extname (parse_name (d @ s @ ''.gz.enc'')) = ''.gz''"
proof -
  from assms have s': "s @ ''.gz'' \<noteq> []" "CHR ''/'' \<notin> set (s @ ''.gz'')"
    by simp_all
  show "extname (d @ s @ ''.gz.enc'') = ''.enc''"
    using extname_suffix [OF s', of "''enc''" d] by simp
  have "parse_name (d @ s @ ''.gz.enc'') = last_component d @ s @ ''.gz''"
    using parse_name_suffix [OF s', of "''enc''" d] by simp
  then show "extname (parse_name (d @ s @ ''.gz.enc'')) = ''.gz''"
    using extname_suffix [OF assms, of "''gz''" "last_component d"] by simp
qed

lemma gz_only:
  assumes "s \<noteq> []" and "CHR ''/'' \<notin> set s"
  shows "extname (d @ s @ ''.gz'') = ''.gz''"
  using extname_suffix [OF assms, of "''gz''" d] by simp

lemma enc_only:
  assumes "s \<noteq> []" and "CHR ''/'' \<notin> set s"
  shows "extname (d @ s @ ''.enc'') = ''.enc''"
    and "extname (parse_name (d @ s @ ''.enc'')) = extname (d @ s)"
proof -
  show "extname (d @ s @ ''.enc'') = ''.enc''"
    using extname_suffix [OF assms, of "''enc''" d] by simp
  have "parse_name (d @ s @ ''.enc'') = last_component d @ s"
    using parse_name_suffix [OF assms, of "''enc''" d] by simp
  then show "extname (parse_name (d @ s @ ''.enc'')) = extname (d @ s)"
    by (simp add: extname_last_component [OF assms])
qed


subsection \<open>Suffix peeling\<close>

text \<open>
  C3. For every archive path the options returned keep the path, enable encryption with
  the supplied key exactly when the path's extension is \<^verbatim>\<open>.enc\<close>, and enable compression
  exactly when the extension of what remains (the name without an outer \<^verbatim>\<open>.enc\<close>, else the
  path itself) is \<^verbatim>\<open>.gz\<close>. For a non-empty stem \<open>s\<close> without a separator, behind any
  prefix \<open>d\<close>: \<open>d s .gz.enc\<close> enables both, \<open>d s .gz\<close> compression only, \<open>d s .enc\<close>
  encryption only (when \<open>d s\<close> itself does not end in the extension \<^verbatim>\<open>.gz\<close>), and a name
  with neither extension enables neither.
\<close>

theorem getLocalFileSourceOptions_peels:
  "getLocalFileSourceOptions opts =
     options_with (file_name opts)
       (extname (if extname (file_name opts) = ''.enc''
                 then parse_name (file_name opts) else file_name opts) = ''.gz'')
       (extname (file_name opts) = ''.enc'')
       (if extname (file_name opts) = ''.enc'' then key opts else None)
   \<and> (s \<noteq> [] \<and> CHR ''/'' \<notin> set s \<longrightarrow>
        getLocalFileSourceOptions (opts\<lparr> file_name := d @ s @ ''.gz.enc'' \<rparr>) =
          options_with (d @ s @ ''.gz.enc'') True True (key opts)
      \<and> getLocalFileSourceOptions (opts\<lparr> file_name := d @ s @ ''.gz'' \<rparr>) =
          options_with (d @ s @ ''.gz'') True False None
      \<and> (extname (d @ s) \<noteq> ''.gz'' \<longrightarrow>
           getLocalFileSourceOptions (opts\<lparr> file_name := d @ s @ ''.enc'' \<rparr>) =
             options_with (d @ s @ ''.enc'') False True (key opts))
      \<and> (extname (d @ s) \<noteq> ''.gz'' \<and> extname (d @ s) \<noteq> ''.enc'' \<longrightarrow>
           getLocalFileSourceOptions (opts\<lparr> file_name := d @ s \<rparr>) =
             options_with (d @ s) False False None))"
proof (intro conjI impI)
  show "getLocalFileSourceOptions opts =
     options_with (file_name opts)
       (extname (if extname (file_name opts) = ''.enc''
                 then parse_name (file_name opts) else file_name opts) = ''.gz'')
       (extname (file_name opts) = ''.enc'')
       (if extname (file_name opts) = ''.enc'' then key opts else None)"
    by (rule getLocalFileSourceOptions_eq)
next
  assume "s \<noteq> [] \<and> CHR ''/'' \<notin> set s"
  then have s: "s \<noteq> []" "CHR ''/'' \<notin> set s" by simp_all
  show "getLocalFileSourceOptions (opts\<lparr> file_name := d @ s @ ''.gz.enc'' \<rparr>) =
          options_with (d @ s @ ''.gz.enc'') True True (key opts)"
    by (simp add: getLocalFileSourceOptions_eq gz_enc_both [OF s])
  show "getLocalFileSourceOptions (opts\<lparr> file_name := d @ s @ ''.gz'' \<rparr>) =
          options_with (d @ s @ ''.gz'') True False None"
    by (simp add: getLocalFileSourceOptions_eq gz_only [OF s])
  show "getLocalFileSourceOptions (opts\<lparr> file_name := d @ s @ ''.enc'' \<rparr>) =
          options_with (d @ s @ ''.enc'') False True (key opts)"
    if "extname (d @ s) \<noteq> ''.gz''"
    using that by (simp add: getLocalFileSourceOptions_eq enc_only [OF s])
  show "getLocalFileSourceOptions (opts\<lparr> file_name := d @ s \<rparr>) =
          options_with (d @ s) False False None"
    if "extname (d @ s) \<noteq> ''.gz'' \<and> extname (d @ s) \<noteq> ''.enc''"
    using that by (simp add: getLocalFileSourceOptions_eq)
qed

theorem getLocalFileSourceOptions_peels_witness:
  "''report'' \<noteq> [] \<and> CHR ''/'' \<notin> set ''report''
   \<and> extname ''report'' \<noteq> ''.gz'' \<and> extname ''report'' \<noteq> ''.enc''
   \<and> getLocalFileSourceOptions (opts_for ''report.gz.enc'' (Some ''secret'')) =
       options_with ''report.gz.enc'' True True (Some ''secret'')
   \<and> getLocalFileSourceOptions (opts_for ''report.gz'' (Some ''secret'')) =
       options_with ''report.gz'' True False None
   \<and> getLocalFileSourceOptions (opts_for ''report.enc'' (Some ''secret'')) =
       options_with ''report.enc'' False True (Some ''secret'')
   \<and> getLocalFileSourceOptions (opts_for ''report'' (Some ''secret'')) =
       options_with ''report'' False False None"
proof -
  have e: "extname ''report'' = []"
    by (simp add: extname_def basename_def)
  show ?thesis
    using getLocalFileSourceOptions_peels
      [of "opts_for ''whatever'' (Some ''secret'')" "''report''" "[]"]
    by (simp add: e opts_for_def)
qed

text \<open>
  C9. Recognition depends on position. When the path's extension is not \<^verbatim>\<open>.enc\<close>,
  encryption stays disabled and carries no key, and compression is enabled exactly when
  the path's extension is \<^verbatim>\<open>.gz\<close>; when it is \<^verbatim>\<open>.enc\<close>, compression is enabled exactly
  when the extension of the name without that \<^verbatim>\<open>.enc\<close> is \<^verbatim>\<open>.gz\<close>. So a name ending in
  \<^verbatim>\<open>.enc.gz\<close> is read as compressed and not encrypted.
\<close>

theorem suffix_recognition_by_position:
  "(extname (file_name opts) \<noteq> ''.enc'' \<longrightarrow>
      encryption (getLocalFileSourceOptions opts) =
        \<lparr> encryption_enabled = False, encryption_key = None \<rparr>
    \<and> compression_enabled (compression (getLocalFileSourceOptions opts)) =
        (extname (file_name opts) = ''.gz''))
   \<and> (extname (file_name opts) = ''.enc'' \<longrightarrow>
      compression_enabled (compression (getLocalFileSourceOptions opts)) =
        (extname (parse_name (file_name opts)) = ''.gz''))
   \<and> (s \<noteq> [] \<and> CHR ''/'' \<notin> set s \<longrightarrow>
      getLocalFileSourceOptions (opts\<lparr> file_name := d @ s @ ''.enc.gz'' \<rparr>) =
        options_with (d @ s @ ''.enc.gz'') True False None)"
proof (intro conjI impI)
  assume "s \<noteq> [] \<and> CHR ''/'' \<notin> set s"
  then have "s @ ''.enc'' \<noteq> []" "CHR ''/'' \<notin> set (s @ ''.enc'')"
    by simp_all
  from gz_only [OF this, of d]
  show "getLocalFileSourceOptions (opts\<lparr> file_name := d @ s @ ''.enc.gz'' \<rparr>) =
        options_with (d @ s @ ''.enc.gz'') True False None"
    by (simp add: getLocalFileSourceOptions_eq)
qed (simp_all add: getLocalFileSourceOptions_eq)

theorem suffix_recognition_by_position_witness:
  "extname ''report.enc.gz'' \<noteq> ''.enc''
   \<and> getLocalFileSourceOptions (opts_for ''report.enc.gz'' (Some ''secret'')) =
       options_with ''report.enc.gz'' True False None
   \<and> extname ''report.gz.tar.enc'' = ''.enc''
   \<and> getLocalFileSourceOptions (opts_for ''report.gz.tar.enc'' (Some ''secret'')) =
       options_with ''report.gz.tar.enc'' False True (Some ''secret'')"
proof -
  have e: "extname ''report.enc.gz'' = ''.gz''" "extname ''report.gz.tar.enc'' = ''.enc''"
    "extname (parse_name ''report.gz.tar.enc'') = ''.tar''"
    by (simp_all add: extname_def parse_name_def basename_def)
  show ?thesis
    using suffix_recognition_by_position
        [of "opts_for ''report.enc.gz'' (Some ''secret'')" "''report''" "[]"]
      suffix_recognition_by_position
        [of "opts_for ''report.gz.tar.enc'' (Some ''secret'')" "''report''" "[]"]
    by (simp add: e opts_for_def getLocalFileSourceOptions_eq)
qed

subsection \<open>Missing decryption key\<close>

text \<open>
  C4, as stated, does not hold: for \<^verbatim>\<open>report.enc\<close> without a key the function returns an
  options value with encryption enabled and no key.
\<close>

theorem missing_key_counterexample:
  "extname ''report.enc'' = ''.enc''
   \<and> getLocalFileSourceOptions (opts_for ''report.enc'' None) =
       options_with ''report.enc'' False True None"
  by (simp add: getLocalFileSourceOptions_eq opts_for_def extname_def parse_name_def
      basename_def)

text \<open>
  C4, amended. The function has no failing path: for every path whose extension is
  \<^verbatim>\<open>.enc\<close> it returns options with encryption enabled that carry the caller's key as it
  was given, also when none was given.
\<close>

theorem enc_carries_supplied_key:
  "extname (file_name opts) = ''.enc'' \<Longrightarrow>
     encryption (getLocalFileSourceOptions opts) =
       \<lparr> encryption_enabled = True, encryption_key = key opts \<rparr>"
  by (simp add: getLocalFileSourceOptions_eq)

theorem enc_carries_supplied_key_witness:
  "extname (file_name (opts_for ''backup.tar.gz.enc'' None)) = ''.enc''
   \<and> encryption (getLocalFileSourceOptions (opts_for ''backup.tar.gz.enc'' None)) =
       \<lparr> encryption_enabled = True, encryption_key = None \<rparr>"
proof -
  have e: "extname (file_name (opts_for ''backup.tar.gz.enc'' None)) = ''.enc''"
    by (simp add: opts_for_def extname_def basename_def)
  from enc_carries_supplied_key [OF e] e show ?thesis
    by (simp add: opts_for_def)
qed

subsection \<open>Filters\<close>

text \<open>
  C1. The engine options carry one entity filter and one link filter. The entity filter
  keeps an entity exactly when its type is not in the exclusion list; the link filter
  keeps a link exactly when neither the type of its left end nor the type of its right
  end is in the list. This holds for every value of the list.
\<close>

theorem filters_keep_iff_not_excluded:
  "map (\<lambda>f. f e) (entities (rules (engineOptions K opts))) =
     [type e \<notin> set (DEFAULT_IGNORED_CONTENT_TYPES K)]
   \<and> map (\<lambda>f. f l) (links (rules (engineOptions K opts))) =
     [type (left l) \<notin> set (DEFAULT_IGNORED_CONTENT_TYPES K) \<and>
      type (right l) \<notin> set (DEFAULT_IGNORED_CONTENT_TYPES K)]"
  by (simp add: engineOptions_def entity_filter_def link_filter_def array_includes_set)

subsection \<open>Default strategies\<close>

text \<open>
  C8. For each of the three strategies: when the caller gives none, the named default of
  that kind is used; when the caller gives a (non-empty) name, that name is used as it is.
\<close>

theorem strategy_defaults:
  "s \<noteq> [] \<Longrightarrow>
     strategy (destinationOptions K si (opts\<lparr> conflictStrategy := None \<rparr>)) =
       DEFAULT_CONFLICT_STRATEGY K
   \<and> strategy (destinationOptions K si (opts\<lparr> conflictStrategy := Some s \<rparr>)) = s
   \<and> eo_versionStrategy (engineOptions K (opts\<lparr> versionStrategy := None \<rparr>)
         :: (link, entity) engine_options) = DEFAULT_VERSION_STRATEGY K
   \<and> eo_versionStrategy (engineOptions K (opts\<lparr> versionStrategy := Some s \<rparr>)
         :: (link, entity) engine_options) = s
   \<and> eo_schemaStrategy (engineOptions K (opts\<lparr> schemaStrategy := None \<rparr>)
         :: (link, entity) engine_options) = DEFAULT_SCHEMA_STRATEGY K
   \<and> eo_schemaStrategy (engineOptions K (opts\<lparr> schemaStrategy := Some s \<rparr>)
         :: (link, entity) engine_options) = s"
  by (simp add: destinationOptions_def engineOptions_def js_or_def)

theorem strategy_defaults_witness:
  "''exact'' \<noteq> []
   \<and> strategy (destinationOptions sample_constants ()
        ((opts_for ''report.gz'' None)\<lparr> conflictStrategy := None \<rparr>)) = ''restore''
   \<and> strategy (destinationOptions sample_constants ()
        ((opts_for ''report.gz'' None)\<lparr> conflictStrategy := Some ''exact'' \<rparr>)) = ''exact''
   \<and> eo_versionStrategy (engineOptions sample_constants
        ((opts_for ''report.gz'' None)\<lparr> versionStrategy := None \<rparr>)
        :: (link, entity) engine_options) = ''ignore''
   \<and> eo_versionStrategy (engineOptions sample_constants
        ((opts_for ''report.gz'' None)\<lparr> versionStrategy := Some ''exact'' \<rparr>)
        :: (link, entity) engine_options) = ''exact''
   \<and> eo_schemaStrategy (engineOptions sample_constants
        ((opts_for ''report.gz'' None)\<lparr> schemaStrategy := None \<rparr>)
        :: (link, entity) engine_options) = ''strict''
   \<and> eo_schemaStrategy (engineOptions sample_constants
        ((opts_for ''report.gz'' None)\<lparr> schemaStrategy := Some ''exact'' \<rparr>)
        :: (link, entity) engine_options) = ''exact''"
proof -
  have "''exact'' \<noteq> []"
    by simp
  from strategy_defaults [OF this, of sample_constants "()" "opts_for ''report.gz'' None"]
  show ?thesis
    by (simp add: sample_constants_def)
qed


subsection \<open>Telemetry\<close>

lemmas handler_phase_defs =
  on_start_invoked_def on_start_resumed_def on_finish_invoked_def on_finish_resumed_def
  on_error_invoked_def on_error_resumed_def

lemma handle_phases: "handle eng ev st = resume ev (invoke eng ev st)"
  by (simp add: handle_def invoke_def resume_def on_start_def on_finish_def on_error_def)

lemma handle_sent_payload: "sent (handle eng (n, p) st) = sent (handle eng (n, q) st)"
  by (simp add: handle_def on_start_def on_finish_def on_error_def handler_phase_defs telemetryPayload_def)

lemma run_handlers_sent:
  "map fst evs = map fst evs' \<Longrightarrow> sent st = sent st' \<Longrightarrow>
     sent (run_handlers eng evs st) = sent (run_handlers eng evs' st')"
proof (induction evs arbitrary: evs' st st')
  case Nil
  then show ?case by simp
next
  case (Cons ev evs)
  then obtain ev' evs'' where evs': "evs' = ev' # evs''" and n: "fst ev = fst ev'"
    and rest: "map fst evs = map fst evs''"
    by (cases evs') auto
  from n Cons.prems(2) have "sent (handle eng ev st) = sent (handle eng ev' st')"
    by (simp add: handle_def on_start_def on_finish_def on_error_def handler_phase_defs telemetryPayload_def)
  with Cons.IH [OF rest] evs' show ?case
    by simp
qed

text \<open>
  C10. The telemetry payload does not depend on the event's payload: for any two
  payloads it is the same value, made of the names of the engine's two providers and
  nothing else; so the message a handler sends is the same whatever payload the event
  carries.
\<close>

theorem telemetryPayload_ignores_payload:
  "telemetryPayload eng p = telemetryPayload eng q
   \<and> telemetryPayload eng p =
       \<lparr> eventProperties =
           \<lparr> source = name (sourceProvider eng),
             destination = name (destinationProvider eng) \<rparr> \<rparr>
   \<and> sent (handle eng (n, p) st) = sent (handle eng (n, q) st)"
  by (simp add: telemetryPayload_def handle_def on_start_def on_finish_def on_error_def handler_phase_defs)

subsection \<open>Assignments to the exit code\<close>

lemma handle_assigned:
  "assigned (handle eng ev st) =
     assigned st @ (case terminal_code (fst ev) of None \<Rightarrow> [] | Some c \<Rightarrow> [c])"
  by (simp add: handle_def terminal_code_def on_start_def on_finish_def on_error_def handler_phase_defs)

lemma handle_slot:
  "transferExitCode (handle eng ev st) =
     (case terminal_code (fst ev) of None \<Rightarrow> transferExitCode st | Some c \<Rightarrow> Some c)"
  by (simp add: handle_def terminal_code_def on_start_def on_finish_def on_error_def handler_phase_defs)

lemma run_handlers_assigned:
  "assigned (run_handlers eng evs st) =
     assigned st @ List.map_filter (\<lambda>ev. terminal_code (fst ev)) evs"
  by (induction evs arbitrary: st)
    (simp_all add: handle_assigned split: option.split)

lemma run_handlers_slot:
  "transferExitCode (run_handlers eng evs st) =
     (case rev (List.map_filter (\<lambda>ev. terminal_code (fst ev)) evs) of
        [] \<Rightarrow> transferExitCode st
      | c # cs \<Rightarrow> Some c)"
  by (induction evs arbitrary: st)
    (auto simp: handle_slot split: option.split list.split)

lemma run_handlers_slot_values:
  "transferExitCode (run_handlers eng evs st) \<in> {transferExitCode st, Some 0, Some 1}"
proof (induction evs arbitrary: st)
  case Nil
  show ?case by simp
next
  case (Cons ev evs)
  from Cons.IH [of "handle eng ev st"] show ?case
    by (auto simp: handle_slot terminal_code_def split: if_splits)
qed

lemma do_step_slot:
  "transferExitCode (do_step eng x st) =
     (case x of Invoked ev \<Rightarrow> transferExitCode st
      | Resumed ev \<Rightarrow>
          (case terminal_code (fst ev) of None \<Rightarrow> transferExitCode st | Some c \<Rightarrow> Some c))"
  by (cases x) (simp_all add: invoke_def resume_def terminal_code_def handler_phase_defs)

lemma invoke_slot: "transferExitCode (invoke eng ev st) = transferExitCode st"
  by (simp add: invoke_def handler_phase_defs)

lemma resume_slot:
  "transferExitCode (resume ev st) =
     (case terminal_code (fst ev) of None \<Rightarrow> transferExitCode st | Some c \<Rightarrow> Some c)"
  by (simp add: resume_def terminal_code_def handler_phase_defs)

lemma run_steps_slot_values:
  "transferExitCode (run_steps eng xs st) \<in> {transferExitCode st, Some 0, Some 1}"
proof (induction xs arbitrary: st)
  case Nil
  show ?case by simp
next
  case (Cons x xs)
  from Cons.IH [of "do_step eng x st"] show ?case
    by (auto simp: do_step_slot terminal_code_def split: if_splits handler_step.splits)
qed

lemma run_steps_assigned:
  "assigned (run_steps eng xs st) =
     assigned st @ List.map_filter (\<lambda>ev. terminal_code (fst ev)) (resumed xs)"
proof (induction xs arbitrary: st)
  case Nil
  show ?case by simp
next
  case (Cons x xs)
  show ?case
    by (cases x)
      (auto simp: Cons.IH invoke_def resume_def terminal_code_def handler_phase_defs)
qed

lemma run_steps_slot:
  "transferExitCode (run_steps eng xs st) = transferExitCode (run_handlers eng (resumed xs) st)"
proof (induction xs arbitrary: st)
  case Nil
  show ?case by simp
next
  case (Cons x xs)
  show ?case
  proof (cases x)
    case (Invoked ev)
    have "transferExitCode (run_steps eng xs (invoke eng ev st)) =
        transferExitCode (run_handlers eng (resumed xs) (invoke eng ev st))"
      by (rule Cons.IH)
    also have "\<dots> = transferExitCode (run_handlers eng (resumed xs) st)"
      by (simp add: run_handlers_slot invoke_slot split: list.split)
    finally show ?thesis
      using Invoked by simp
  next
    case (Resumed ev)
    have "transferExitCode (run_steps eng xs (resume ev st)) =
        transferExitCode (run_handlers eng (resumed xs) (resume ev st))"
      by (rule Cons.IH)
    also have "\<dots> = transferExitCode (run_handlers eng (resumed xs) (handle eng ev st))"
      by (simp add: run_handlers_slot handle_slot resume_slot split: list.split)
    finally show ?thesis
      using Resumed by simp
  qed
qed

lemma slot_of_values: "slot_of eng runs t \<in> {None, Some 0, Some 1}"
  using run_steps_slot_values [of eng _ initial]
  by (simp add: slot_of_def closure_at_def initial_def)

lemma late_error_slot: "slot_of eng late_error t = (if 4960 \<le> t then Some 1 else None)"
  by (simp add: late_error_def slot_of_def closure_at_def initial_def invoke_def resume_def
      handler_phase_defs)

lemma early_error_slot: "slot_of eng early_error t = (if 120 \<le> t then Some 1 else None)"
  by (simp add: early_error_def slot_of_def closure_at_def initial_def invoke_def resume_def
      handler_phase_defs)

lemma early_finish_slot: "slot_of eng early_finish t = (if 130 \<le> t then Some 0 else None)"
  by (simp add: early_finish_def slot_of_def closure_at_def initial_def invoke_def resume_def
      handler_phase_defs)

lemma no_runs_slot: "slot_of eng [] t = None"
  by (simp add: slot_of_def closure_at_def initial_def)

text \<open>
  C6, as stated, does not hold: the handlers assign without looking at the slot, so when
  the finish handler and then the error handler complete, the recorded 0 is replaced by 1.
\<close>

theorem second_write_counterexample:
  "transferExitCode (run_handlers sample_engine (take 1 finish_then_error) initial) = Some 0
   \<and> transferExitCode (run_handlers sample_engine finish_then_error initial) = Some 1
   \<and> assigned (run_handlers sample_engine finish_then_error initial) = [0, 1]"
  by (simp add: finish_then_error_def handle_def on_finish_def on_error_def initial_def
      handler_phase_defs)

text \<open>
  C6, amended. Only the handlers of the finish and error events assign the slot, once
  per completed run (0 and 1), and the slot holds the value assigned last. In an
  execution in which at most one such handler run completes, the slot is assigned at
  most once.
\<close>

theorem slot_assigned_by_terminal_handlers:
  "assigned (run_handlers eng evs initial) =
     List.map_filter (\<lambda>ev. terminal_code (fst ev)) evs
   \<and> transferExitCode (run_handlers eng evs initial) =
       (if assigned (run_handlers eng evs initial) = [] then None
        else Some (last (assigned (run_handlers eng evs initial))))
   \<and> (length (filter (\<lambda>ev. terminal_code (fst ev) \<noteq> None) evs) \<le> 1 \<longrightarrow>
        length (assigned (run_handlers eng evs initial)) \<le> 1)"
proof -
  have a: "assigned (run_handlers eng evs initial) =
      List.map_filter (\<lambda>ev. terminal_code (fst ev)) evs"
    by (simp add: run_handlers_assigned initial_def)
  have "transferExitCode (run_handlers eng evs initial) =
      (case rev (assigned (run_handlers eng evs initial)) of [] \<Rightarrow> None | c # cs \<Rightarrow> Some c)"
    using a by (simp add: run_handlers_slot initial_def split: list.split)
  then have b: "transferExitCode (run_handlers eng evs initial) =
       (if assigned (run_handlers eng evs initial) = [] then None
        else Some (last (assigned (run_handlers eng evs initial))))"
    by (cases "assigned (run_handlers eng evs initial)" rule: rev_cases) simp_all
  have c: "length (assigned (run_handlers eng evs initial)) =
      length (filter (\<lambda>ev. terminal_code (fst ev) \<noteq> None) evs)"
    by (simp add: a List.map_filter_def)
  from a b c show ?thesis
    by simp
qed

theorem slot_assigned_by_terminal_handlers_witness:
  "length (filter (\<lambda>ev. terminal_code (fst ev) \<noteq> None)
      [(''transfer::start'', ()), (''transfer::progress'', ()), (''transfer::finish'', ())]) \<le> 1
   \<and> assigned (run_handlers sample_engine
        [(''transfer::start'', ()), (''transfer::progress'', ()), (''transfer::finish'', ())]
        initial) = [0]
   \<and> transferExitCode (run_handlers sample_engine
        [(''transfer::start'', ()), (''transfer::progress'', ()), (''transfer::finish'', ())]
        initial) = Some 0"
  using slot_assigned_by_terminal_handlers [of sample_engine
      "[(''transfer::start'', ()), (''transfer::progress'', ()), (''transfer::finish'', ())]"]
  by (simp add: terminal_code_def)


subsection \<open>The wait loop\<close>

lemma waitLoop_timeout: "\<not> now - s < m \<Longrightarrow> waitLoop slot lag s m now = (0, now)"
  by (simp add: waitLoop.simps)

lemma waitLoop_found: "now - s < m \<Longrightarrow> slot now = Some c \<Longrightarrow> waitLoop slot lag s m now = (c, now)"
  by (simp add: waitLoop.simps)

lemma waitLoop_sleep:
  "now - s < m \<Longrightarrow> slot now = None \<Longrightarrow>
     waitLoop slot lag s m now = waitLoop slot lag s m (now + 50 + int (lag now))"
  by (subst waitLoop.simps) simp

lemma waitLoop_code:
  "fst (waitLoop slot lag s m now) =
     (case find (\<lambda>t. slot t \<noteq> None) (poll_instants lag s m now) of
        None \<Rightarrow> 0 | Some t \<Rightarrow> the (slot t))"
proof (induction slot lag s m now rule: waitLoop.induct)
  case (1 slot lag s m now)
  show ?case
  proof (cases "now - s < m")
    case False
    then show ?thesis
      by (simp add: waitLoop_timeout poll_instants.simps)
  next
    case True
    show ?thesis
    proof (cases "slot now")
      case None
      with True "1.IH" show ?thesis
        by (subst poll_instants.simps) (simp add: waitLoop_sleep)
    next
      case (Some c)
      with True show ?thesis
        by (subst poll_instants.simps) (simp add: waitLoop_found)
    qed
  qed
qed

lemma waitLoop_first_poll:
  "find (\<lambda>t. slot t \<noteq> None) (poll_instants lag s m now) = Some t \<Longrightarrow>
     waitLoop slot lag s m now = (the (slot t), t)"
proof (induction slot lag s m now rule: waitLoop.induct)
  case (1 slot lag s m now)
  show ?case
  proof (cases "now - s < m")
    case False
    with "1.prems" show ?thesis
      by (simp add: poll_instants.simps)
  next
    case True
    show ?thesis
    proof (cases "slot now")
      case None
      with True "1.prems"
      have "find (\<lambda>t. slot t \<noteq> None)
              (poll_instants lag s m (now + 50 + int (lag now))) = Some t"
        by (subst (asm) poll_instants.simps) simp
      with True None "1.IH" show ?thesis
        by (simp add: waitLoop_sleep)
    next
      case (Some c)
      with True "1.prems" have "t = now"
        by (subst (asm) poll_instants.simps) simp
      with True Some show ?thesis
        by (simp add: waitLoop_found)
    qed
  qed
qed

lemma waitLoop_bound:
  assumes "\<forall>t. lag t \<le> L" and "now - s < m + 50 + int L"
  shows "snd (waitLoop slot lag s m now) - s < m + 50 + int L"
  using assms
proof (induction slot lag s m now rule: waitLoop.induct)
  case (1 slot lag s m now)
  show ?case
  proof (cases "now - s < m")
    case False
    with "1.prems" show ?thesis
      by (simp add: waitLoop_timeout)
  next
    case True
    show ?thesis
    proof (cases "slot now")
      case None
      from "1.prems"(1) have "int (lag now) \<le> int L"
        by simp
      with True have "now + 50 + int (lag now) - s < m + 50 + int L"
        by linarith
      with True None "1.IH" "1.prems"(1) show ?thesis
        by (simp add: waitLoop_sleep)
    next
      case (Some c)
      with True "1.prems" show ?thesis
        by (simp add: waitLoop_found)
    qed
  qed
qed

lemma waitLoop_not_before: "now \<le> snd (waitLoop slot lag s m now)"
proof (induction slot lag s m now rule: waitLoop.induct)
  case (1 slot lag s m now)
  show ?case
  proof (cases "now - s < m")
    case False
    then show ?thesis by (simp add: waitLoop_timeout)
  next
    case True
    show ?thesis
    proof (cases "slot now")
      case None
      with True "1.IH" show ?thesis
        by (simp add: waitLoop_sleep)
    next
      case (Some c)
      with True show ?thesis by (simp add: waitLoop_found)
    qed
  qed
qed


text \<open>
  C2, as stated, does not hold: with exact timers and a limit of 5000 ms the slot is
  polled at 0, 50, ..., 4950; a status 1 recorded at 4960, before the deadline, is never
  read, and the exit code is 0.
\<close>

theorem late_status_counterexample:
  "slot_of sample_engine late_error 4960 = Some 1
   \<and> (4960 :: int) - 0 < 5000
   \<and> waitForExitCode (slot_of sample_engine late_error) exact_timers 0 5000 = (0, 5000)"
  by (simp add: waitForExitCode_def late_error_slot exact_timers_def waitLoop_sleep
      waitLoop_timeout)


text \<open>
  C2, amended. The wait exits with the value that the first poll finding the slot set
  reads, at that poll; when no poll made while less than \<open>maxWait\<close> has elapsed finds it
  set, it exits with 0. For a non-negative \<open>maxWait\<close> and timers late by at most \<open>L\<close> it
  exits less than \<open>maxWait + 50 + L\<close> after its start.
\<close>

theorem waitForExitCode_reports_first_poll:
  "(\<forall>t. find (\<lambda>t. slot t \<noteq> None) (poll_instants lag s m s) = Some t \<longrightarrow>
        waitForExitCode slot lag s m = (the (slot t), t))
   \<and> (find (\<lambda>t. slot t \<noteq> None) (poll_instants lag s m s) = None \<longrightarrow>
        fst (waitForExitCode slot lag s m) = 0)
   \<and> (0 \<le> m \<and> (\<forall>t. lag t \<le> L) \<longrightarrow>
        snd (waitForExitCode slot lag s m) - s < m + 50 + int L)
   \<and> s \<le> snd (waitForExitCode slot lag s m)"
proof (intro conjI impI allI)
  fix t assume "find (\<lambda>t. slot t \<noteq> None) (poll_instants lag s m s) = Some t"
  then show "waitForExitCode slot lag s m = (the (slot t), t)"
    unfolding waitForExitCode_def by (rule waitLoop_first_poll)
next
  assume "find (\<lambda>t. slot t \<noteq> None) (poll_instants lag s m s) = None"
  then show "fst (waitForExitCode slot lag s m) = 0"
    by (simp add: waitForExitCode_def waitLoop_code)
next
  assume "0 \<le> m \<and> (\<forall>t. lag t \<le> L)"
  then show "snd (waitForExitCode slot lag s m) - s < m + 50 + int L"
    unfolding waitForExitCode_def by (intro waitLoop_bound) simp_all
next
  show "s \<le> snd (waitForExitCode slot lag s m)"
    unfolding waitForExitCode_def by (rule waitLoop_not_before)
qed

theorem waitForExitCode_reports_first_poll_witness:
  "find (\<lambda>t. slot_of sample_engine early_error t \<noteq> None) (poll_instants exact_timers 0 5000 0)
     = Some 150
   \<and> waitForExitCode (slot_of sample_engine early_error) exact_timers 0 5000 = (1, 150)
   \<and> find (\<lambda>t. slot_of sample_engine ([] :: unit timeline) t \<noteq> None)
        (poll_instants exact_timers 0 200 0) = None
   \<and> fst (waitForExitCode (slot_of sample_engine ([] :: unit timeline)) exact_timers 0 200) = 0
   \<and> (0 :: int) \<le> 5000 \<and> (\<forall>t. exact_timers t \<le> 0)
   \<and> snd (waitForExitCode (slot_of sample_engine early_error) exact_timers 0 5000) - 0
        < 5000 + 50 + int 0"
proof -
  have a: "find (\<lambda>t. slot_of sample_engine early_error t \<noteq> None)
      (poll_instants exact_timers 0 5000 0) = Some 150"
    by (simp add: poll_instants.simps exact_timers_def early_error_slot)
  have b: "find (\<lambda>t. slot_of sample_engine ([] :: unit timeline) t \<noteq> None)
      (poll_instants exact_timers 0 200 0) = None"
    by (simp add: poll_instants.simps exact_timers_def no_runs_slot)
  have c: "(0 :: int) \<le> 5000 \<and> (\<forall>t. exact_timers t \<le> 0)"
    by (simp add: exact_timers_def)
  from a b c
    waitForExitCode_reports_first_poll
      [of "slot_of sample_engine early_error" exact_timers 0 5000 0]
    waitForExitCode_reports_first_poll
      [of "slot_of sample_engine ([] :: unit timeline)" exact_timers 0 200 0]
  show ?thesis
    by (simp add: early_error_slot)
qed

subsection \<open>The command's exit\<close>

lemma run_engine_caught:
  assumes "transfer R = Inl e \<or> (\<exists>r. transfer R = Inr r \<and> buildTransferTable X r = Inl e)"
  shows "run_engine X R eng = caught R e"
  using assms by (auto simp: run_engine_def)

lemma run_engine_waits:
  assumes "transfer R = Inr r" and "buildTransferTable X r = Inr table"
  shows "outcome (run_engine X R eng) =
     Exit (case observed_status eng R of None \<Rightarrow> 0 | Some c \<Rightarrow> c)"
proof (cases "find (\<lambda>t. slot_of eng (timeline R) t \<noteq> None)
    (poll_instants (timer_lag R) (settled_at R) 5000 (settled_at R))")
  case None
  then have "fst (waitForExitCode (slot_of eng (timeline R)) (timer_lag R) (settled_at R) 5000) = 0"
    by (simp add: waitForExitCode_def waitLoop_code)
  with None assms show ?thesis
    by (auto simp: run_engine_def observed_status_def split: prod.split)
next
  case (Some t)
  then have set: "slot_of eng (timeline R) t \<noteq> None"
    by (auto simp: find_Some_iff)
  from Some have "waitForExitCode (slot_of eng (timeline R)) (timer_lag R) (settled_at R) 5000 =
      (the (slot_of eng (timeline R) t), t)"
    unfolding waitForExitCode_def by (rule waitLoop_first_poll)
  with Some set assms show ?thesis
    by (auto simp: run_engine_def observed_status_def)
qed

lemma observed_status_values: "observed_status eng R \<in> {None, Some 0, Some 1}"
  using slot_of_values [of eng "timeline R"]
  by (simp add: observed_status_def split: option.split)


lemma sample_build: "build_engine K sample_modules opts = Inr sample_engine"
  by (simp add: build_engine_def sample_modules_def sample_engine_def)

lemma unrenderable_build: "build_engine K unrenderable_modules opts = Inr sample_engine"
  by (simp add: build_engine_def unrenderable_modules_def sample_modules_def sample_engine_def)

lemma failing_build: "build_engine K failing_modules opts = Inl ''database unreachable''"
  by (simp add: build_engine_def failing_modules_def sample_modules_def)

lemma observed_early_error:
  "observed_status eng (sample_run (Inr ''table'') early_error) = Some 1"
  by (simp add: observed_status_def sample_run_def poll_instants.simps exact_timers_def
      early_error_slot)

lemma observed_early_finish:
  "observed_status eng (sample_run (Inr ''table'') early_finish) = Some 0"
  by (simp add: observed_status_def sample_run_def poll_instants.simps exact_timers_def
      early_finish_slot)

lemma observed_nothing:
  "observed_status eng (sample_run (Inr ''table'') []) = None"
  by (simp add: observed_status_def sample_run_def poll_instants.simps exact_timers_def
      no_runs_slot)

text \<open>
  C7. When the engine was built and the awaited transfer throws, or rendering its
  results throws, the fault is caught: the command logs the two error lines and exits
  with code 1 at the moment the fault is caught. The result is the same for every
  timeline of handler steps and every behaviour of the timers: the wait is not entered,
  and no step of a handler that would happen later is waited for.
\<close>

theorem orchestration_fault_exits_at_once:
  "build_engine K X opts = Inr eng
   \<and> (transfer R = Inl e \<or> (\<exists>r. transfer R = Inr r \<and> buildTransferTable X r = Inl e)) \<longrightarrow>
     import_cmd K X R (Opts opts) =
       \<lparr> outcome = Exit 1,
         logs = [Info ''Starting import...'',
                 Err ''Import process failed unexpectedly:'',
                 Err e],
         ended_at = settled_at R \<rparr>
   \<and> import_cmd K X (R\<lparr> timeline := runs, timer_lag := lag \<rparr>) (Opts opts) =
       import_cmd K X R (Opts opts)"
proof (intro impI, elim conjE)
  assume b: "build_engine K X opts = Inr eng"
    and f: "transfer R = Inl e \<or> (\<exists>r. transfer R = Inr r \<and> buildTransferTable X r = Inl e)"
  let ?R = "R\<lparr> timeline := runs, timer_lag := lag \<rparr>"
  from f have "transfer ?R = Inl e \<or> (\<exists>r. transfer ?R = Inr r \<and> buildTransferTable X r = Inl e)"
    by simp
  then have "run_engine X ?R eng = caught ?R e"
    by (rule run_engine_caught)
  moreover from f have "run_engine X R eng = caught R e"
    by (rule run_engine_caught)
  ultimately show "import_cmd K X R (Opts opts) =
       \<lparr> outcome = Exit 1,
         logs = [Info ''Starting import...'',
                 Err ''Import process failed unexpectedly:'',
                 Err e],
         ended_at = settled_at R \<rparr>
   \<and> import_cmd K X ?R (Opts opts) = import_cmd K X R (Opts opts)"
    using b by (simp add: import_cmd_def caught_def)
qed

text \<open>
  In the first execution of the witness the listener of the error event has been invoked
  when the fault is caught at clock reading 0, so its message has been handed to the
  send; it would be resumed at 120, and the process exits at 0 with the slot still unset.
\<close>

theorem orchestration_fault_exits_at_once_witness:
  "build_engine sample_constants sample_modules (opts_for ''report.gz'' None) = Inr sample_engine
   \<and> transfer (sample_run (Inl ''disk full'') early_error) = Inl ''disk full''
   \<and> import_cmd sample_constants sample_modules (sample_run (Inl ''disk full'') early_error)
        (Opts (opts_for ''report.gz'' None)) =
       \<lparr> outcome = Exit 1,
         logs = [Info ''Starting import...'',
                 Err ''Import process failed unexpectedly:'',
                 Err ''disk full''],
         ended_at = 0 \<rparr>
   \<and> sent (closure_at sample_engine early_error 0) =
       [(''didDEITSProcessFail'', telemetryPayload sample_engine ())]
   \<and> transferExitCode (closure_at sample_engine early_error 0) = None
   \<and> transferExitCode (closure_at sample_engine early_error 120) = Some 1
   \<and> buildTransferTable unrenderable_modules ''table'' = Inl ''cannot render''
   \<and> import_cmd sample_constants unrenderable_modules (sample_run (Inr ''table'') early_finish)
        (Opts (opts_for ''report.gz'' None)) =
       \<lparr> outcome = Exit 1,
         logs = [Info ''Starting import...'',
                 Err ''Import process failed unexpectedly:'',
                 Err ''cannot render''],
         ended_at = 0 \<rparr>"
proof -
  let ?o = "opts_for ''report.gz'' None"
  let ?R1 = "sample_run (Inl ''disk full'') early_error"
  let ?R2 = "sample_run (Inr ''table'') early_finish"
  have t: "transfer ?R1 = Inl ''disk full''" "transfer ?R2 = Inr ''table''"
    "settled_at ?R1 = 0" "settled_at ?R2 = 0"
    by (simp_all add: sample_run_def)
  have u: "buildTransferTable unrenderable_modules ''table'' = Inl ''cannot render''"
    by (simp add: unrenderable_modules_def)
  have h1: "build_engine sample_constants sample_modules ?o = Inr sample_engine
      \<and> (transfer ?R1 = Inl ''disk full''
          \<or> (\<exists>r. transfer ?R1 = Inr r \<and> buildTransferTable sample_modules r = Inl ''disk full''))"
    using t by (simp add: sample_build)
  have h2: "build_engine sample_constants unrenderable_modules ?o = Inr sample_engine
      \<and> (transfer ?R2 = Inl ''cannot render''
          \<or> (\<exists>r. transfer ?R2 = Inr r
                \<and> buildTransferTable unrenderable_modules r = Inl ''cannot render''))"
    using t u by (simp add: unrenderable_build)
  note i1 = orchestration_fault_exits_at_once
    [of sample_constants sample_modules ?o sample_engine ?R1 "''disk full''" exact_timers "[]",
      THEN mp, OF h1]
  note i2 = orchestration_fault_exits_at_once
    [of sample_constants unrenderable_modules ?o sample_engine ?R2 "''cannot render''"
      exact_timers "[]", THEN mp, OF h2]
  have a: "import_cmd sample_constants sample_modules ?R1 (Opts ?o) =
       \<lparr> outcome = Exit 1,
         logs = [Info ''Starting import...'',
                 Err ''Import process failed unexpectedly:'',
                 Err ''disk full''],
         ended_at = 0 \<rparr>"
    using i1 [THEN conjunct1] t by simp
  have b: "sent (closure_at sample_engine early_error 0) =
       [(''didDEITSProcessFail'', telemetryPayload sample_engine ())]"
    "transferExitCode (closure_at sample_engine early_error 0) = None"
    "transferExitCode (closure_at sample_engine early_error 120) = Some 1"
    by (simp_all add: early_error_def closure_at_def initial_def invoke_def resume_def
        handler_phase_defs)
  have c: "import_cmd sample_constants unrenderable_modules ?R2 (Opts ?o) =
       \<lparr> outcome = Exit 1,
         logs = [Info ''Starting import...'',
                 Err ''Import process failed unexpectedly:'',
                 Err ''cannot render''],
         ended_at = 0 \<rparr>"
    using i2 [THEN conjunct1] t by simp
  from a b c t u sample_build [of sample_constants ?o] show ?thesis
    by simp
qed

text \<open>
  C5, as stated, does not hold: the transfer succeeds, the error handler records status
  1 at 4960 ms, before the deadline, and the command exits with code 0.
\<close>

theorem late_error_exit_counterexample:
  "transfer (sample_run (Inr ''table'') late_error) = Inr ''table''
   \<and> slot_of sample_engine (timeline (sample_run (Inr ''table'') late_error)) 4960 = Some 1
   \<and> 4960 - settled_at (sample_run (Inr ''table'') late_error) < 5000
   \<and> import_cmd sample_constants sample_modules (sample_run (Inr ''table'') late_error)
        (Opts (opts_for ''report.gz'' None)) =
       \<lparr> outcome = Exit 0,
         logs = [Info ''Starting import...'', Info ''table'',
                 Info ''Import process has been completed successfully!''],
         ended_at = 5000 \<rparr>"
proof -
  let ?R = "sample_run (Inr ''table'') late_error"
  have w: "waitForExitCode (slot_of sample_engine late_error) exact_timers 0 5000 = (0, 5000)"
    by (simp add: waitForExitCode_def late_error_slot exact_timers_def waitLoop_sleep
        waitLoop_timeout)
  have r: "run_engine sample_modules ?R sample_engine =
       \<lparr> outcome = Exit 0,
         logs = [Info ''Starting import...'', Info ''table'',
                 Info ''Import process has been completed successfully!''],
         ended_at = 5000 \<rparr>"
    using w by (simp add: run_engine_def sample_run_def sample_modules_def)
  have c: "import_cmd sample_constants sample_modules ?R (Opts (opts_for ''report.gz'' None)) =
      run_engine sample_modules ?R sample_engine"
    by (simp add: import_cmd_def sample_build)
  have "transfer ?R = Inr ''table''" "slot_of sample_engine (timeline ?R) 4960 = Some 1"
    "4960 - settled_at ?R < 5000"
    by (simp_all add: sample_run_def late_error_slot)
  with r c show ?thesis
    by simp
qed


text \<open>
  C5, amended. The command exits with 1 when its argument is not an object and when a
  fault is caught in the \<^verbatim>\<open>try\<close> block. When transfer and rendering succeed it exits with
  the status observed by the first poll that finds one, which is 0 or 1, and with 0 when
  no poll finds one. A fault thrown while the engine is built rejects the command's
  promise, and the command itself then chooses no exit code.
\<close>

theorem exit_code_cases:
  "outcome (import_cmd K X R NotAnObject) = Exit 1
   \<and> (build_engine K X opts = Inl e \<longrightarrow>
        outcome (import_cmd K X R (Opts opts)) = Unhandled e)
   \<and> (build_engine K X opts = Inr eng
       \<and> (transfer R = Inl e \<or> (\<exists>r. transfer R = Inr r \<and> buildTransferTable X r = Inl e)) \<longrightarrow>
        outcome (import_cmd K X R (Opts opts)) = Exit 1)
   \<and> (build_engine K X opts = Inr eng \<and> transfer R = Inr r
       \<and> buildTransferTable X r = Inr table \<longrightarrow>
        outcome (import_cmd K X R (Opts opts)) =
          Exit (case observed_status eng R of None \<Rightarrow> 0 | Some c \<Rightarrow> c)
        \<and> observed_status eng R \<in> {None, Some 0, Some 1})"
proof (intro conjI impI)
  show "outcome (import_cmd K X R NotAnObject) = Exit 1"
    by (simp add: import_cmd_def)
next
  assume "build_engine K X opts = Inl e"
  then show "outcome (import_cmd K X R (Opts opts)) = Unhandled e"
    by (simp add: import_cmd_def)
next
  assume "build_engine K X opts = Inr eng
       \<and> (transfer R = Inl e \<or> (\<exists>r. transfer R = Inr r \<and> buildTransferTable X r = Inl e))"
  then show "outcome (import_cmd K X R (Opts opts)) = Exit 1"
    using run_engine_caught [of R e X eng] by (simp add: import_cmd_def caught_def)
next
  assume "build_engine K X opts = Inr eng \<and> transfer R = Inr r
       \<and> buildTransferTable X r = Inr table"
  then show "outcome (import_cmd K X R (Opts opts)) =
          Exit (case observed_status eng R of None \<Rightarrow> 0 | Some c \<Rightarrow> c)"
    using run_engine_waits [of R r X table eng] by (simp add: import_cmd_def)
next
  show "observed_status eng R \<in> {None, Some 0, Some 1}"
    by (rule observed_status_values)
qed

theorem exit_code_cases_witness:
  "outcome (import_cmd sample_constants sample_modules (sample_run (Inr ''table'') [])
      NotAnObject) = Exit 1
   \<and> outcome (import_cmd sample_constants failing_modules (sample_run (Inr ''table'') [])
      (Opts (opts_for ''report.gz'' None))) = Unhandled ''database unreachable''
   \<and> outcome (import_cmd sample_constants sample_modules
      (sample_run (Inl ''disk full'') early_error) (Opts (opts_for ''report.gz'' None))) = Exit 1
   \<and> outcome (import_cmd sample_constants sample_modules
      (sample_run (Inr ''table'') early_error) (Opts (opts_for ''report.gz'' None))) = Exit 1
   \<and> outcome (import_cmd sample_constants sample_modules
      (sample_run (Inr ''table'') early_finish) (Opts (opts_for ''report.gz'' None))) = Exit 0
   \<and> outcome (import_cmd sample_constants sample_modules
      (sample_run (Inr ''table'') []) (Opts (opts_for ''report.gz'' None))) = Exit 0"
proof -
  let ?o = "opts_for ''report.gz'' None"
  have t: "transfer (sample_run (Inl ''disk full'') early_error) = Inl ''disk full''"
    "\<And>runs. transfer (sample_run (Inr ''table'') runs) = Inr ''table''"
    by (simp_all add: sample_run_def)
  have b: "buildTransferTable sample_modules ''table'' = Inr ''table''"
    by (simp add: sample_modules_def)
  from t b sample_build [of sample_constants ?o] failing_build [of sample_constants ?o]
    observed_early_error [of sample_engine] observed_early_finish [of sample_engine]
    observed_nothing [of sample_engine]
    exit_code_cases [of sample_constants sample_modules "sample_run (Inr ''table'') []" ?o]
    exit_code_cases [of sample_constants failing_modules "sample_run (Inr ''table'') []" ?o
      "''database unreachable''"]
    exit_code_cases [of sample_constants sample_modules
      "sample_run (Inl ''disk full'') early_error" ?o _ sample_engine "''disk full''"]
    exit_code_cases [of sample_constants sample_modules
      "sample_run (Inr ''table'') early_error" ?o _ sample_engine "''table''" "''table''"]
    exit_code_cases [of sample_constants sample_modules
      "sample_run (Inr ''table'') early_finish" ?o _ sample_engine "''table''" "''table''"]
    exit_code_cases [of sample_constants sample_modules
      "sample_run (Inr ''table'') []" ?o _ sample_engine "''table''" "''table''"]
  show ?thesis
    by simp
qed

end
